theory Spec2Isabelle
  imports Main "HOL-Library.List_Lexorder" "HOL-Library.Product_Lexorder" "HOL-Library.Multiset"
    "HOL-Library.Word"
begin

section \<open>Python values used by rendergitplus.py\<close>

text \<open>
  A Python \<open>str\<close> is a sequence of Unicode code points, so a string is a list of
  natural numbers and its length counts code points. Comparison of two strings is
  lexicographic on the code points, which is the order of \<open>List_Lexorder\<close>.
  \<open>u\<close> turns an ASCII literal of the source into such a string.
\<close>

type_synonym pychar = nat
type_synonym pystr = "pychar list"

definition u :: "string \<Rightarrow> pystr" where
  "u s = map of_char s"

text \<open>Exceptions: the class, and the message that \<open>str(e)\<close> gives.\<close>

datatype exc_class =
  FileNotFoundError | PermissionError | OtherOSError | ValueError
  | AttributeError | JSONDecodeError | OtherException

datatype pyexc = PyExc exc_class pystr

fun exc_class_of :: "pyexc \<Rightarrow> exc_class" where
  "exc_class_of (PyExc c m) = c"

fun exc_str :: "pyexc \<Rightarrow> pystr" where
  "exc_str (PyExc c m) = m"

subsection \<open>Strings\<close>

text \<open>\<open>sep.join(xs)\<close>, \<open>s.startswith(p)\<close>, \<open>sub in s\<close>, \<open>s.split(c)\<close> and \<open>s.rfind(c)\<close>.\<close>

fun str_join :: "pystr \<Rightarrow> pystr list \<Rightarrow> pystr" where
  "str_join sep [] = []"
| "str_join sep [x] = x"
| "str_join sep (x # y # ys) = x @ sep @ str_join sep (y # ys)"

definition startswith :: "pystr \<Rightarrow> pystr \<Rightarrow> bool" where
  "startswith s p = (take (length p) s = p)"

fun str_contains :: "pystr \<Rightarrow> pystr \<Rightarrow> bool" where
  "str_contains sub [] = (sub = [])"
| "str_contains sub (c # cs) = (startswith (c # cs) sub \<or> str_contains sub cs)"

text \<open>\<open>split_acc c s cur\<close>: \<open>cur\<close> is the piece read so far.\<close>

fun split_acc :: "pychar \<Rightarrow> pystr \<Rightarrow> pystr \<Rightarrow> pystr list" where
  "split_acc c [] cur = [cur]"
| "split_acc c (x # xs) cur =
     (if x = c then cur # split_acc c xs [] else split_acc c xs (cur @ [x]))"

definition str_split :: "pychar \<Rightarrow> pystr \<Rightarrow> pystr list" where
  "str_split c s = split_acc c s []"

text \<open>\<open>rfind_from c s i acc\<close>: \<open>i\<close> is the index of the head of \<open>s\<close>, \<open>acc\<close> the last hit.\<close>

fun rfind_from :: "pychar \<Rightarrow> pystr \<Rightarrow> int \<Rightarrow> int \<Rightarrow> int" where
  "rfind_from c [] i acc = acc"
| "rfind_from c (x # xs) i acc = rfind_from c xs (i + 1) (if x = c then i else acc)"

definition rfind :: "pychar \<Rightarrow> pystr \<Rightarrow> int" where
  "rfind c s = rfind_from c s 0 (- 1)"

text \<open>\<open>str(n)\<close> for a number that is not negative.\<close>

fun str_of_nat :: "nat \<Rightarrow> pystr" where
  "str_of_nat n = (if n < 10 then [48 + n] else str_of_nat (n div 10) @ [48 + n mod 10])"

declare str_of_nat.simps [simp del]

subsection \<open>Paths\<close>

text \<open>
  A \<open>pathlib.Path\<close> of the program is absolute and POSIX: it is the list of its
  components below the root \<open>/\<close>. \<open>os_sep\<close> is \<open>/\<close>.
  \<open>suffix\<close> is pathlib's: the part of the last component from its last dot on, when
  that dot is neither the first nor the last character.
\<close>

type_synonym path = "pystr list"

definition os_sep :: pychar where
  "os_sep = 47"

definition path_name :: "path \<Rightarrow> pystr" where
  "path_name p = (if p = [] then [] else last p)"

definition suffix :: "path \<Rightarrow> pystr" where
  "suffix p =
     (let name = path_name p; i = rfind 46 name
      in if 0 < i \<and> i < int (length name) - 1 then drop (nat i) name else [])"

text \<open>\<open>str\<close> of a relative path: its components joined by the separator, \<open>.\<close> when there is none.\<close>

definition rel_str :: "path \<Rightarrow> pystr" where
  "rel_str parts = (if parts = [] then u ''.'' else str_join [os_sep] parts)"

definition relative_to :: "path \<Rightarrow> path \<Rightarrow> pyexc + path" where
  "relative_to p other =
     (if take (length other) p = other then Inr (drop (length other) p)
      else Inl (PyExc ValueError (u ''path is not in the subpath of the other path'')))"

text \<open>
  \<open>root / rel\<close>: the components of \<open>rel\<close> (empty ones and \<open>.\<close> dropped) below
  \<open>root\<close>; a \<open>rel\<close> that starts with a slash is absolute and replaces \<open>root\<close>.
\<close>

definition path_parts :: "pystr \<Rightarrow> path" where
  "path_parts s = filter (\<lambda>c. c \<noteq> [] \<and> c \<noteq> u ''.'') (str_split 47 s)"

definition joinpath :: "path \<Rightarrow> pystr \<Rightarrow> path" where
  "joinpath root rel = (if startswith rel (u ''/'') then path_parts rel else root @ path_parts rel)"

text \<open>\<open>s.replace(a, b)\<close> for one-character strings.\<close>

definition replace_char :: "pychar \<Rightarrow> pychar \<Rightarrow> pystr \<Rightarrow> pystr" where
  "replace_char a b s = map (\<lambda>c. if c = a then b else c) s"

section \<open>The world outside the program\<close>

text \<open>
  What the program reads from the file system and from libraries is a parameter of the
  model, the record \<open>env\<close>:
  \<^item> \<open>stat_size p\<close> is \<open>p.stat().st_size\<close>, or the exception \<open>stat\<close> raises;
  \<^item> \<open>file_bytes p\<close> is the content that \<open>p.open("rb")\<close> and reading give, or the
    exception either raises;
  \<^item> \<open>text_of p\<close> is \<open>p.read_text(encoding="utf-8", errors="replace")\<close>, or its exception;
  \<^item> \<open>is_file p\<close> is \<open>p.is_file()\<close>, or its exception;
  \<^item> \<open>utf8_decodes bs\<close> says that \<open>bs.decode("utf-8")\<close> succeeds;
  \<^item> \<open>str_lower\<close> is \<open>str.lower\<close>;
  \<^item> \<open>python_minifier\<close>, \<open>rjsmin\<close>, \<open>rcssmin\<close>, \<open>htmlmin\<close> are the optional modules:
    \<open>None\<close> when the import failed, otherwise the call the program makes on the module,
    which returns a string or raises;
  \<^item> \<open>json_loads\<close> and \<open>json_dumps\<close> are \<open>json.loads\<close> and
    \<open>json.dumps(_, separators=(',', ':'))\<close> on values of type \<open>'j\<close>.
\<close>

type_synonym byte = "8 word"

record 'j env =
  stat_size :: "path \<Rightarrow> pyexc + int"
  file_bytes :: "path \<Rightarrow> pyexc + byte list"
  text_of :: "path \<Rightarrow> pyexc + pystr"
  is_file :: "path \<Rightarrow> pyexc + bool"
  utf8_decodes :: "byte list \<Rightarrow> bool"
  str_lower :: "pystr \<Rightarrow> pystr"
  python_minifier :: "(pystr \<Rightarrow> pyexc + pystr) option"
  rjsmin :: "(pystr \<Rightarrow> pyexc + pystr) option"
  rcssmin :: "(pystr \<Rightarrow> pyexc + pystr) option"
  htmlmin :: "(pystr \<Rightarrow> pyexc + pystr) option"
  json_loads :: "pystr \<Rightarrow> pyexc + 'j"
  json_dumps :: "'j \<Rightarrow> pyexc + pystr"

section \<open>Constants and data classes\<close>

definition BINARY_EXTENSIONS :: "pystr list" where
  "BINARY_EXTENSIONS = map u
     [''.png'', ''.jpg'', ''.jpeg'', ''.gif'', ''.webp'', ''.bmp'', ''.svg'', ''.ico'',
      ''.pdf'', ''.zip'', ''.tar'', ''.gz'', ''.bz2'', ''.xz'', ''.7z'', ''.rar'',
      ''.mp3'', ''.mp4'', ''.mov'', ''.avi'', ''.mkv'', ''.wav'', ''.ogg'', ''.flac'',
      ''.ttf'', ''.otf'', ''.eot'', ''.woff'', ''.woff2'',
      ''.so'', ''.dll'', ''.dylib'', ''.class'', ''.jar'', ''.exe'', ''.bin'']"

definition MINIFIABLE_EXTENSIONS :: "pystr \<rightharpoonup> pystr" where
  "MINIFIABLE_EXTENSIONS = map_of
     [(u ''.py'', u ''python''), (u ''.json'', u ''json''), (u ''.js'', u ''javascript''),
      (u ''.css'', u ''css''), (u ''.html'', u ''html''), (u ''.htm'', u ''html'')]"

record RenderDecision =
  include_flag :: bool
  reason :: pystr

text \<open>
  The fields \<open>include\<close>, \<open>path\<close>, \<open>rel\<close> and \<open>size\<close> of the source are
  \<open>include_flag\<close>, \<open>info_path\<close>, \<open>info_rel\<close> and \<open>info_size\<close> here.
\<close>

record FileInfo =
  info_path :: path
  info_rel :: pystr
  info_size :: int
  decision :: RenderDecision

section \<open>Classification\<close>

definition looks_binary :: "'j env \<Rightarrow> path \<Rightarrow> bool" where
  "looks_binary w p =
     (if str_lower w (suffix p) \<in> set BINARY_EXTENSIONS then True
      else (case file_bytes w p of
              Inl e \<Rightarrow> True
            | Inr content \<Rightarrow>
                (let data = take 8192 content
                 in if 0 \<in> set data then True
                    else if utf8_decodes w data then False
                    else True)))"

text \<open>The \<open>try\<close> around \<open>stat\<close>: only \<open>FileNotFoundError\<close> is caught.\<close>

definition stat_or_zero :: "'j env \<Rightarrow> path \<Rightarrow> pyexc + int" where
  "stat_or_zero w p =
     (case stat_size w p of
        Inr n \<Rightarrow> Inr n
      | Inl e \<Rightarrow> if exc_class_of e = FileNotFoundError then Inr 0 else Inl e)"

text \<open>The test of \<open>decide_file\<close> for a path of the version control system.\<close>

definition is_vcs_path :: "pystr \<Rightarrow> bool" where
  "is_vcs_path rel =
     (str_contains (u ''/.git/'') (u ''/'' @ rel @ u ''/'') \<or> startswith rel (u ''.git/''))"

definition file_info :: "path \<Rightarrow> pystr \<Rightarrow> int \<Rightarrow> bool \<Rightarrow> pystr \<Rightarrow> FileInfo" where
  "file_info p r n inc why =
     \<lparr>info_path = p, info_rel = r, info_size = n, decision = \<lparr>include_flag = inc, reason = why\<rparr>\<rparr>"

definition decide_file :: "'j env \<Rightarrow> path \<Rightarrow> path \<Rightarrow> int \<Rightarrow> pyexc + FileInfo" where
  "decide_file w p repo_root max_bytes =
     (case relative_to p repo_root of
        Inl e \<Rightarrow> Inl e
      | Inr relp \<Rightarrow>
          (let r = replace_char os_sep 47 (rel_str relp)
           in case stat_or_zero w p of
                Inl e \<Rightarrow> Inl e
              | Inr sz \<Rightarrow>
                  if is_vcs_path r then Inr (file_info p r sz False (u ''ignored''))
                  else if sz > max_bytes then Inr (file_info p r sz False (u ''too_large''))
                  else if looks_binary w p then Inr (file_info p r sz False (u ''binary''))
                  else Inr (file_info p r sz True (u ''ok''))))"

text \<open>
  \<open>collect_files\<close>: \<open>tracked\<close> is the listing of the tracked files, one name per
  line; \<open>sorted(set(...))\<close> of it is \<open>sort (remdups tracked)\<close>. An exception of
  \<open>is_file\<close> or of \<open>decide_file\<close> ends the loop.
\<close>

fun collect_loop :: "'j env \<Rightarrow> path \<Rightarrow> int \<Rightarrow> pystr list \<Rightarrow> FileInfo list \<Rightarrow> pyexc + FileInfo list" where
  "collect_loop w repo_root max_bytes [] infos = Inr infos"
| "collect_loop w repo_root max_bytes (r # rest) infos =
     (let p = joinpath repo_root r
      in case is_file w p of
           Inl e \<Rightarrow> Inl e
         | Inr False \<Rightarrow> collect_loop w repo_root max_bytes rest infos
         | Inr True \<Rightarrow>
             (case decide_file w p repo_root max_bytes of
                Inl e \<Rightarrow> Inl e
              | Inr info \<Rightarrow> collect_loop w repo_root max_bytes rest (infos @ [info])))"

definition collect_files :: "'j env \<Rightarrow> pystr list \<Rightarrow> path \<Rightarrow> int \<Rightarrow> pyexc + FileInfo list" where
  "collect_files w tracked repo_root max_bytes =
     collect_loop w repo_root max_bytes (sort (remdups tracked)) []"

text \<open>The statistics at the head of \<open>build_html\<close>.\<close>

definition rendered :: "FileInfo list \<Rightarrow> FileInfo list" where
  "rendered infos = filter (\<lambda>i. include_flag (decision i)) infos"

definition skipped_binary :: "FileInfo list \<Rightarrow> FileInfo list" where
  "skipped_binary infos = filter (\<lambda>i. reason (decision i) = u ''binary'') infos"

definition skipped_large :: "FileInfo list \<Rightarrow> FileInfo list" where
  "skipped_large infos = filter (\<lambda>i. reason (decision i) = u ''too_large'') infos"

definition skipped_ignored :: "FileInfo list \<Rightarrow> FileInfo list" where
  "skipped_ignored infos = filter (\<lambda>i. reason (decision i) = u ''ignored'') infos"

definition total_files :: "FileInfo list \<Rightarrow> nat" where
  "total_files infos =
     length (rendered infos) + length (skipped_binary infos)
     + length (skipped_large infos) + length (skipped_ignored infos)"

section \<open>slugify\<close>

text \<open>
  \<open>str.isalnum\<close> on one character reads the Unicode database, which is not part of
  the repository: it is the parameter \<open>isalnum\<close>. \<open>ascii_isalnum\<close> is its
  restriction to ASCII, used to evaluate concrete inputs.
\<close>

definition ascii_isalnum :: "pychar \<Rightarrow> bool" where
  "ascii_isalnum c = ((48 \<le> c \<and> c \<le> 57) \<or> (65 \<le> c \<and> c \<le> 90) \<or> (97 \<le> c \<and> c \<le> 122))"

text \<open>The loop of \<open>slugify\<close>: \<open>out\<close> is the list built by \<open>out.append\<close>.\<close>

fun slugify_loop :: "(pychar \<Rightarrow> bool) \<Rightarrow> pystr \<Rightarrow> pystr \<Rightarrow> pystr" where
  "slugify_loop isalnum [] out = out"
| "slugify_loop isalnum (ch # rest) out =
     (if isalnum ch \<or> ch \<in> {45, 95}
      then slugify_loop isalnum rest (out @ [ch])
      else slugify_loop isalnum rest (out @ [45]))"

definition slugify :: "(pychar \<Rightarrow> bool) \<Rightarrow> pystr \<Rightarrow> pystr" where
  "slugify isalnum path_str = slugify_loop isalnum path_str []"

section \<open>Minification\<close>

text \<open>
  \<open>minify_code\<close>: the chain of \<open>elif\<close> inside the \<open>try\<close>. A module that was not
  imported is \<open>None\<close> and its branch is not taken. An exception of a minifier is
  caught by \<open>except Exception: pass\<close> and the function returns \<open>text\<close>; the inner
  handler of the JSON branch returns \<open>text\<close> for a \<open>JSONDecodeError\<close>.
\<close>

definition call_module :: "(pystr \<Rightarrow> pyexc + pystr) option \<Rightarrow> pystr \<Rightarrow> pystr" where
  "call_module m text =
     (case m of
        None \<Rightarrow> text
      | Some f \<Rightarrow> (case f text of Inr r \<Rightarrow> r | Inl e \<Rightarrow> text))"

definition minify_code :: "'j env \<Rightarrow> pystr \<Rightarrow> pystr \<Rightarrow> pystr" where
  "minify_code w text ext =
     (let minify_type = MINIFIABLE_EXTENSIONS (str_lower w ext)
      in if minify_type = Some (u ''python'') \<and> python_minifier w \<noteq> None
           then call_module (python_minifier w) text
         else if minify_type = Some (u ''javascript'') \<and> rjsmin w \<noteq> None
           then call_module (rjsmin w) text
         else if minify_type = Some (u ''css'') \<and> rcssmin w \<noteq> None
           then call_module (rcssmin w) text
         else if minify_type = Some (u ''html'') \<and> htmlmin w \<noteq> None
           then call_module (htmlmin w) text
         else if minify_type = Some (u ''json'')
           then (case json_loads w text of
                   Inl e \<Rightarrow> (if exc_class_of e = JSONDecodeError then text else text)
                 | Inr parsed \<Rightarrow>
                     (case json_dumps w parsed of
                        Inl e \<Rightarrow> (if exc_class_of e = JSONDecodeError then text else text)
                      | Inr r \<Rightarrow> r))
         else text)"

section \<open>The document corpus\<close>

text \<open>
  The body of the loop of \<open>generate_cxml_text\<close> appends six elements to \<open>lines\<close>;
  the fourth is the text of the file, minified when asked, or the message of the
  exception that reading raised. Code point 34 is the double quote.
\<close>

definition document_content :: "'j env \<Rightarrow> bool \<Rightarrow> FileInfo \<Rightarrow> pystr" where
  "document_content w minify i =
     (case text_of w (info_path i) of
        Inr text \<Rightarrow> (if minify then minify_code w text (suffix (info_path i)) else text)
      | Inl e \<Rightarrow> u ''Failed to read: '' @ exc_str e)"

definition document_lines :: "'j env \<Rightarrow> bool \<Rightarrow> nat \<Rightarrow> FileInfo \<Rightarrow> pystr list" where
  "document_lines w minify index i =
     [u ''<document index='' @ [34] @ str_of_nat index @ [34] @ u ''>'',
      u ''<source>'' @ info_rel i @ u ''</source>'',
      u ''<document_content>'',
      document_content w minify i,
      u ''</document_content>'',
      u ''</document>'']"

fun cxml_loop :: "'j env \<Rightarrow> bool \<Rightarrow> (nat \<times> FileInfo) list \<Rightarrow> pystr list \<Rightarrow> pystr list" where
  "cxml_loop w minify [] lines = lines"
| "cxml_loop w minify ((index, i) # rest) lines =
     cxml_loop w minify rest (lines @ document_lines w minify index i)"

definition generate_cxml_lines :: "'j env \<Rightarrow> FileInfo list \<Rightarrow> bool \<Rightarrow> pystr list" where
  "generate_cxml_lines w infos minify =
     cxml_loop w minify (enumerate 1 (filter (\<lambda>i. include_flag (decision i)) infos))
       [u ''<documents>'']
     @ [u ''</documents>'']"


section \<open>The directory tree\<close>

text \<open>
  The nested dictionary of \<open>build_git_tree\<close>: a dictionary is the list of its items
  in insertion order, with distinct keys; a value is \<open>None\<close> (\<open>File\<close>) or a
  dictionary (\<open>Dir\<close>).
\<close>

datatype entry = File | Dir "(pystr \<times> entry) list"

type_synonym tree = "(pystr \<times> entry) list"

text \<open>
  One path: \<open>dirs\<close> are \<open>parts[:-1]\<close> and \<open>leaf\<close> is \<open>parts[-1]\<close>.
  \<open>setdefault\<close> returns the value already stored under a key and stores the default at
  the end otherwise. When the value stored under a directory part is \<open>None\<close>, the next
  \<open>setdefault\<close> is called on \<open>None\<close> and raises \<open>AttributeError\<close>.
\<close>

fun tree_insert :: "pystr list \<Rightarrow> pystr \<Rightarrow> tree \<Rightarrow> pyexc + tree" where
  "tree_insert [] leaf node =
     Inr (if map_of node leaf = None then node @ [(leaf, File)] else node)"
| "tree_insert (part # ds) leaf node =
     (case map_of node part of
        None \<Rightarrow>
          (case tree_insert ds leaf [] of
             Inl e \<Rightarrow> Inl e
           | Inr sub \<Rightarrow> Inr (node @ [(part, Dir sub)]))
      | Some File \<Rightarrow>
          Inl (PyExc AttributeError (u ''NoneType object has no attribute setdefault''))
      | Some (Dir sub) \<Rightarrow>
          (case tree_insert ds leaf sub of
             Inl e \<Rightarrow> Inl e
           | Inr sub' \<Rightarrow> Inr (map (\<lambda>kv. if fst kv = part then (part, Dir sub') else kv) node)))"

fun build_tree :: "pystr list \<Rightarrow> tree \<Rightarrow> pyexc + tree" where
  "build_tree [] t = Inr t"
| "build_tree (p # ps) t =
     (let parts = str_split 47 p
      in case tree_insert (butlast parts) (last parts) t of
           Inl e \<Rightarrow> Inl e
         | Inr t' \<Rightarrow> build_tree ps t')"

text \<open>
  \<open>walk\<close>: the items sorted by the key \<open>(value is None, name.lower())\<close>; \<open>sorted\<close>
  is stable, as \<open>sort_key\<close> is. The code points 9492, 9500, 9472 and 9474 are the box
  drawing characters of the connectors.
\<close>

definition sort_key_of :: "'j env \<Rightarrow> pystr \<times> entry \<Rightarrow> bool \<times> pystr" where
  "sort_key_of w kv = (snd kv = File, str_lower w (fst kv))"

definition walk_items :: "'j env \<Rightarrow> tree \<Rightarrow> (pystr \<times> entry) list" where
  "walk_items w node = sort_key (sort_key_of w) node"

lemma dir_size_less:
  "(name, Dir sub) \<in> set node \<Longrightarrow>
     size_list (size_prod (\<lambda>_. 0) size) sub < size_list (size_prod (\<lambda>_. 0) size) node"
  by (induction node) auto

function walk :: "'j env \<Rightarrow> tree \<Rightarrow> pystr \<Rightarrow> pystr list" where
  "walk w node prefix =
     concat (map (\<lambda>(i, name, subtree).
        (let lst = (int i = int (length (walk_items w node)) - 1);
             branch = (if lst then [9492, 9472, 9472, 32] else [9500, 9472, 9472, 32])
         in (prefix @ branch @ name) #
            (case subtree of
               File \<Rightarrow> []
             | Dir sub \<Rightarrow> walk w sub (prefix @ (if lst then u ''    '' else [9474, 32, 32, 32])))))
       (enumerate 0 (walk_items w node)))"
  by pat_completeness auto
termination
proof (relation "measure (\<lambda>(w, node, prefix). size_list (size_prod (\<lambda>_. 0) size) node)")
  show "wf (measure (\<lambda>(w :: 'j env, node :: tree, prefix :: pystr).
               size_list (size_prod (\<lambda>_. 0) size) node))"
    by simp
next
  fix w :: "'j env" and node :: tree and prefix :: pystr and x xa y xb ya xc xd x2
  assume "x \<in> set (enumerate 0 (walk_items w node))" and "(xa, y) = x" and "(xb, ya) = y"
    and "ya = Dir x2"
  then have "(xb, Dir x2) \<in> set (sort_key (sort_key_of w) node)"
    by (auto simp: walk_items_def enumerate_eq_zip dest!: set_zip_rightD)
  then have "(xb, Dir x2) \<in> set node"
    by simp
  then show "((w, x2, prefix @ (if xc then u ''    '' else [9474, 32, 32, 32])), w, node, prefix)
       \<in> measure (\<lambda>(w, node, prefix). size_list (size_prod (\<lambda>_. 0) size) node)"
    by (simp add: dir_size_less)
qed

declare walk.simps [simp del]

text \<open>
  \<open>build_git_tree\<close>: \<open>root_name\<close> is \<open>repo_root.name\<close> and \<open>tracked\<close> the lines of
  the listing of tracked files.
\<close>

definition build_git_tree :: "'j env \<Rightarrow> pystr \<Rightarrow> pystr list \<Rightarrow> pyexc + pystr" where
  "build_git_tree w root_name tracked =
     (case build_tree tracked [] of
        Inl e \<Rightarrow> Inl e
      | Inr t \<Rightarrow> Inr (str_join [10] (root_name # walk w t [])))"




section \<open>An example world\<close>

text \<open>
  A small repository \<open>/repo\<close>, used to evaluate the definitions on concrete inputs.
  \<open>secret.txt\<close> and \<open>big_secret.txt\<close> cannot be opened, \<open>stat\<close> fails on
  \<open>locked/x.txt\<close> and on \<open>.git/index.lock\<close>, and \<open>flaky.txt\<close> can be opened when it is classified but not
  any more when its text is read.
  \<open>ascii_lower\<close> and \<open>ascii_only\<close> are \<open>str.lower\<close> and the success of UTF-8
  decoding on ASCII data. The JSON values of the example are the compact texts
  themselves.
\<close>

definition ascii_lower :: "pystr \<Rightarrow> pystr" where
  "ascii_lower s = map (\<lambda>c. if 65 \<le> c \<and> c \<le> 90 then c + 32 else c) s"

definition ascii_only :: "byte list \<Rightarrow> bool" where
  "ascii_only bs = list_all (\<lambda>b. b < 128) bs"

definition repo :: path where
  "repo = [u ''repo'']"

definition denied :: pyexc where
  "denied = PyExc PermissionError (u ''Permission denied'')"

definition io_error :: pyexc where
  "io_error = PyExc OtherOSError (u ''Input/output error'')"

definition missing :: pyexc where
  "missing = PyExc FileNotFoundError (u ''No such file or directory'')"

definition example_stat :: "path \<Rightarrow> pyexc + int" where
  "example_stat p =
     (if p = [u ''repo'', u ''README.md''] then Inr 5
      else if p = [u ''repo'', u ''src'', u ''a.py''] then Inr 9
      else if p = [u ''repo'', u ''.git'', u ''config''] then Inr 60000
      else if p = [u ''repo'', u ''big.bin''] then Inr 60000
      else if p = [u ''repo'', u ''exact.txt''] then Inr 51200
      else if p = [u ''repo'', u ''secret.txt''] then Inr 4
      else if p = [u ''repo'', u ''big_secret.txt''] then Inr 60000
      else if p = [u ''repo'', u ''flaky.txt''] then Inr 3
      else if p = [u ''repo'', u ''locked'', u ''x.txt''] then Inl denied
      else if p = [u ''repo'', u ''.git'', u ''index.lock''] then Inl denied
      else Inl missing)"

definition example_bytes :: "path \<Rightarrow> pyexc + byte list" where
  "example_bytes p =
     (if p = [u ''repo'', u ''README.md''] then Inr [104, 101, 108, 108, 111]
      else if p = [u ''repo'', u ''src'', u ''a.py''] then Inr [120, 32, 61, 32, 49, 32, 32, 35, 99]
      else if p = [u ''repo'', u ''.git'', u ''config''] then Inr (replicate 60000 0)
      else if p = [u ''repo'', u ''big.bin''] then Inr (replicate 60000 0)
      else if p = [u ''repo'', u ''exact.txt''] then Inr (replicate 51200 97)
      else if p = [u ''repo'', u ''secret.txt''] then Inl denied
      else if p = [u ''repo'', u ''big_secret.txt''] then Inl denied
      else if p = [u ''repo'', u ''flaky.txt''] then Inr [97, 98, 99]
      else if p = [u ''repo'', u ''locked'', u ''x.txt''] then Inl denied
      else Inl missing)"

definition example_text :: "path \<Rightarrow> pyexc + pystr" where
  "example_text p =
     (if p = [u ''repo'', u ''README.md''] then Inr (u ''hello'')
      else if p = [u ''repo'', u ''src'', u ''a.py''] then Inr (u ''x = 1  #c'')
      else if p = [u ''repo'', u ''exact.txt''] then Inr (replicate 51200 97)
      else if p = [u ''repo'', u ''secret.txt''] then Inl denied
      else if p = [u ''repo'', u ''big_secret.txt''] then Inl denied
      else if p = [u ''repo'', u ''flaky.txt''] then Inl io_error
      else if p = [u ''repo'', u ''locked'', u ''x.txt''] then Inl denied
      else Inl missing)"

definition example_is_file :: "path \<Rightarrow> pyexc + bool" where
  "example_is_file p =
     (case example_stat p of
        Inr n \<Rightarrow> Inr True
      | Inl e \<Rightarrow> if exc_class_of e = FileNotFoundError then Inr False else Inl e)"

definition example_python_minifier :: "pystr \<Rightarrow> pyexc + pystr" where
  "example_python_minifier text =
     (if text = u ''x = 1  #c'' then Inr (u ''x=1'')
      else Inl (PyExc OtherException (u ''invalid syntax'')))"

definition example_json_loads :: "pystr \<Rightarrow> pyexc + pystr" where
  "example_json_loads text =
     (if text = u ''[1, 2]'' then Inr (u ''[1,2]'')
      else Inl (PyExc JSONDecodeError (u ''Expecting value'')))"

definition example_env :: "pystr env" where
  "example_env =
     \<lparr>stat_size = example_stat, file_bytes = example_bytes, text_of = example_text,
      is_file = example_is_file, utf8_decodes = ascii_only, str_lower = ascii_lower,
      python_minifier = Some example_python_minifier, rjsmin = None, rcssmin = None,
      htmlmin = None, json_loads = example_json_loads, json_dumps = Inr\<rparr>"

text \<open>The four candidates of the end-to-end scenario, and their records.\<close>

definition example_candidates :: "path list" where
  "example_candidates =
     [repo @ [u ''README.md''], repo @ [u ''src'', u ''a.py''],
      repo @ [u ''.git'', u ''config''], repo @ [u ''big.bin'']]"

definition example_infos :: "FileInfo list" where
  "example_infos =
     [file_info (repo @ [u ''README.md'']) (u ''README.md'') 5 True (u ''ok''),
      file_info (repo @ [u ''src'', u ''a.py'']) (u ''src/a.py'') 9 True (u ''ok''),
      file_info (repo @ [u ''.git'', u ''config'']) (u ''.git/config'') 60000 False (u ''ignored''),
      file_info (repo @ [u ''big.bin'']) (u ''big.bin'') 60000 False (u ''too_large'')]"

text \<open>
  Records for the corpus: three files are included, and the text of the second,
  \<open>flaky.txt\<close>, cannot be read.
\<close>

definition example_corpus_infos :: "FileInfo list" where
  "example_corpus_infos =
     [file_info (repo @ [u ''README.md'']) (u ''README.md'') 5 True (u ''ok''),
      file_info (repo @ [u ''big.bin'']) (u ''big.bin'') 60000 False (u ''too_large''),
      file_info (repo @ [u ''flaky.txt'']) (u ''flaky.txt'') 3 True (u ''ok''),
      file_info (repo @ [u ''src'', u ''a.py'']) (u ''src/a.py'') 9 True (u ''ok'')]"


text \<open>
  A listing of four tracked names, one of them missing from the working tree, and the
  records \<open>collect_files\<close> produces for it.
\<close>

definition example_listing :: "pystr list" where
  "example_listing = [u ''README.md'', u ''src/a.py'', u ''gone.txt'', u ''big.bin'']"

definition example_collected :: "FileInfo list" where
  "example_collected =
     [file_info (repo @ [u ''README.md'']) (u ''README.md'') 5 True (u ''ok''),
      file_info (repo @ [u ''big.bin'']) (u ''big.bin'') 60000 False (u ''too_large''),
      file_info (repo @ [u ''src'', u ''a.py'']) (u ''src/a.py'') 9 True (u ''ok'')]"


text \<open>
  A listing of six tracked names in the order of \<open>git ls-files\<close>, the dictionary
  \<open>build_git_tree\<close> builds from it, and the lines of the rendered tree.
\<close>

definition example_tracked :: "pystr list" where
  "example_tracked =
     [u ''README.md'', u ''Zed.txt'', u ''apple.txt'', u ''docs/x.md'', u ''src/A.py'', u ''src/b.py'']"

definition example_tree :: tree where
  "example_tree =
     [(u ''README.md'', File), (u ''Zed.txt'', File), (u ''apple.txt'', File),
      (u ''docs'', Dir [(u ''x.md'', File)]),
      (u ''src'', Dir [(u ''A.py'', File), (u ''b.py'', File)])]"

definition example_tree_lines :: "pystr list" where
  "example_tree_lines =
     [u ''repo'',
      [9500, 9472, 9472, 32] @ u ''docs'',
      [9474, 32, 32, 32] @ [9492, 9472, 9472, 32] @ u ''x.md'',
      [9500, 9472, 9472, 32] @ u ''src'',
      [9474, 32, 32, 32] @ [9500, 9472, 9472, 32] @ u ''A.py'',
      [9474, 32, 32, 32] @ [9492, 9472, 9472, 32] @ u ''b.py'',
      [9500, 9472, 9472, 32] @ u ''apple.txt'',
      [9500, 9472, 9472, 32] @ u ''README.md'',
      [9492, 9472, 9472, 32] @ u ''Zed.txt'']"

section \<open>Properties of the classification\<close>

text \<open>
  A file of the repository is \<open>root @ relp\<close>: the path \<open>relp\<close> below the root. Its
  relative name is \<open>rel_str relp\<close>, and \<open>decide_file\<close> is the chain of four tests on it.
\<close>

lemma replace_char_same: "replace_char a a s = s"
  by (induction s) (auto simp: replace_char_def)

lemma relative_to_under: "relative_to (root @ relp) root = Inr relp"
  by (simp add: relative_to_def)

lemma reason_distinct:
  "u ''ok'' \<noteq> u ''ignored''" "u ''ok'' \<noteq> u ''too_large''" "u ''ok'' \<noteq> u ''binary''"
  "u ''ignored'' \<noteq> u ''too_large''" "u ''ignored'' \<noteq> u ''binary''"
  "u ''too_large'' \<noteq> u ''binary''"
  by (simp_all add: u_def)

lemma decide_file_under:
  "decide_file w (root @ relp) root mb =
     (case stat_or_zero w (root @ relp) of
        Inl e \<Rightarrow> Inl e
      | Inr sz \<Rightarrow>
          Inr (if is_vcs_path (rel_str relp) then file_info (root @ relp) (rel_str relp) sz False (u ''ignored'')
               else if sz > mb then file_info (root @ relp) (rel_str relp) sz False (u ''too_large'')
               else if looks_binary w (root @ relp) then file_info (root @ relp) (rel_str relp) sz False (u ''binary'')
               else file_info (root @ relp) (rel_str relp) sz True (u ''ok'')))"
  by (simp add: decide_file_def relative_to_under os_sep_def replace_char_same Let_def split: sum.splits)

lemmas ex_simps = example_env_def example_stat_def example_bytes_def example_text_def
  example_is_file_def repo_def denied_def missing_def io_error_def u_def stat_or_zero_def
  is_vcs_path_def rel_str_def os_sep_def startswith_def

lemmas binary_simps = looks_binary_def suffix_def path_name_def rfind_def
  BINARY_EXTENSIONS_def ascii_lower_def ascii_only_def

lemma stat_or_zero_cases:
  "stat_or_zero w p = Inr sz \<longleftrightarrow>
     stat_size w p = Inr sz
     \<or> (sz = 0 \<and> (\<exists>e. stat_size w p = Inl e \<and> exc_class_of e = FileNotFoundError))"
  by (auto simp: stat_or_zero_def split: sum.splits)

lemma stat_or_zero_raises:
  "stat_or_zero w p = Inl e \<longleftrightarrow> stat_size w p = Inl e \<and> exc_class_of e \<noteq> FileNotFoundError"
  by (auto simp: stat_or_zero_def split: sum.splits)

lemma decide_file_propagates:
  assumes "stat_size w (root @ relp) = Inl e" and "exc_class_of e \<noteq> FileNotFoundError"
  shows "decide_file w (root @ relp) root mb = Inl e"
  using assms by (simp add: decide_file_under stat_or_zero_def)

text \<open>
  C1, as stated for every candidate path, fails for a path of the version control
  directory on which \<open>stat\<close> raises \<open>PermissionError\<close>: \<open>stat\<close> is called before
  the test for \<open>.git\<close>, the exception is not caught, and the path is not classified
  \<open>ignored\<close>.
\<close>

theorem vcs_path_stat_error_escapes:
  "is_vcs_path (rel_str [u ''.git'', u ''index.lock''])
   \<and> stat_size example_env (repo @ [u ''.git'', u ''index.lock'']) = Inl denied
   \<and> decide_file example_env (repo @ [u ''.git'', u ''index.lock'']) repo 51200 = Inl denied"
  unfolding decide_file_under by (simp add: ex_simps)

text \<open>
  C1, amended. For every candidate whose size is resolved (\<open>stat\<close> returns it, or
  raises \<open>FileNotFoundError\<close> and the size is 0) the tests are tried in a fixed order and
  the first that matches decides: the record is \<open>ignored\<close> exactly when the path is one
  of the version control directory, whatever its size and content; \<open>too_large\<close>
  exactly when it is not such a path and its size exceeds \<open>max_bytes\<close>; \<open>binary\<close>
  exactly when it is neither and looks binary; and \<open>ok\<close>, with the flag set, exactly
  when none of the three tests matches. When \<open>stat\<close> raises any other exception the
  candidate is not classified: the exception leaves \<open>decide_file\<close>.
\<close>

theorem decide_file_first_match:
  "(\<forall>sz. stat_size w (root @ relp) = Inr sz
          \<or> (sz = 0 \<and> (\<exists>e. stat_size w (root @ relp) = Inl e
                           \<and> exc_class_of e = FileNotFoundError)) \<longrightarrow>
      (\<exists>info. decide_file w (root @ relp) root mb = Inr info
         \<and> info_path info = root @ relp \<and> info_rel info = rel_str relp \<and> info_size info = sz
         \<and> (reason (decision info) = u ''ignored'' \<longleftrightarrow> is_vcs_path (rel_str relp))
         \<and> (reason (decision info) = u ''too_large'' \<longleftrightarrow>
               \<not> is_vcs_path (rel_str relp) \<and> sz > mb)
         \<and> (reason (decision info) = u ''binary'' \<longleftrightarrow>
               \<not> is_vcs_path (rel_str relp) \<and> \<not> sz > mb \<and> looks_binary w (root @ relp))
         \<and> (reason (decision info) = u ''ok'' \<longleftrightarrow>
               \<not> is_vcs_path (rel_str relp) \<and> \<not> sz > mb \<and> \<not> looks_binary w (root @ relp))
         \<and> (include_flag (decision info) \<longleftrightarrow> reason (decision info) = u ''ok'')))
   \<and> (\<forall>e. stat_size w (root @ relp) = Inl e \<and> exc_class_of e \<noteq> FileNotFoundError \<longrightarrow>
          decide_file w (root @ relp) root mb = Inl e)"
proof (intro conjI allI impI)
  fix sz
  assume "stat_size w (root @ relp) = Inr sz
          \<or> (sz = 0 \<and> (\<exists>e. stat_size w (root @ relp) = Inl e
                           \<and> exc_class_of e = FileNotFoundError))"
  then have "stat_or_zero w (root @ relp) = Inr sz"
    by (simp add: stat_or_zero_cases)
  then show "\<exists>info. decide_file w (root @ relp) root mb = Inr info
         \<and> info_path info = root @ relp \<and> info_rel info = rel_str relp \<and> info_size info = sz
         \<and> (reason (decision info) = u ''ignored'' \<longleftrightarrow> is_vcs_path (rel_str relp))
         \<and> (reason (decision info) = u ''too_large'' \<longleftrightarrow>
               \<not> is_vcs_path (rel_str relp) \<and> sz > mb)
         \<and> (reason (decision info) = u ''binary'' \<longleftrightarrow>
               \<not> is_vcs_path (rel_str relp) \<and> \<not> sz > mb \<and> looks_binary w (root @ relp))
         \<and> (reason (decision info) = u ''ok'' \<longleftrightarrow>
               \<not> is_vcs_path (rel_str relp) \<and> \<not> sz > mb \<and> \<not> looks_binary w (root @ relp))
         \<and> (include_flag (decision info) \<longleftrightarrow> reason (decision info) = u ''ok'')"
    using reason_distinct by (simp add: decide_file_under file_info_def)
next
  fix e
  assume "stat_size w (root @ relp) = Inl e \<and> exc_class_of e \<noteq> FileNotFoundError"
  then show "decide_file w (root @ relp) root mb = Inl e"
    by (simp add: decide_file_propagates)
qed

theorem decide_file_first_match_witness:
  "stat_size example_env (repo @ [u ''.git'', u ''config'']) = Inr 60000
   \<and> is_vcs_path (rel_str [u ''.git'', u ''config''])
   \<and> (60000 :: int) > 51200
   \<and> (\<exists>info. decide_file example_env (repo @ [u ''.git'', u ''config'']) repo 51200 = Inr info
         \<and> info_size info = 60000 \<and> reason (decision info) = u ''ignored'')
   \<and> stat_size example_env (repo @ [u ''big.bin'']) = Inr 60000
   \<and> \<not> is_vcs_path (rel_str [u ''big.bin''])
   \<and> looks_binary example_env (repo @ [u ''big.bin''])
   \<and> (\<exists>info. decide_file example_env (repo @ [u ''big.bin'']) repo 51200 = Inr info
         \<and> reason (decision info) = u ''too_large'')
   \<and> stat_size example_env (repo @ [u ''locked'', u ''x.txt'']) = Inl denied
   \<and> exc_class_of denied \<noteq> FileNotFoundError
   \<and> decide_file example_env (repo @ [u ''locked'', u ''x.txt'']) repo 51200 = Inl denied"
proof -
  have s1: "stat_size example_env (repo @ [u ''.git'', u ''config'']) = Inr 60000"
    by (simp add: ex_simps)
  have v1: "is_vcs_path (rel_str [u ''.git'', u ''config''])"
    by (simp add: ex_simps)
  have s2: "stat_size example_env (repo @ [u ''big.bin'']) = Inr 60000"
    by (simp add: ex_simps)
  have v2: "\<not> is_vcs_path (rel_str [u ''big.bin''])"
    by (simp add: ex_simps)
  have b2: "looks_binary example_env (repo @ [u ''big.bin''])"
    by (simp add: ex_simps binary_simps)
  have s3: "stat_size example_env (repo @ [u ''locked'', u ''x.txt'']) = Inl denied"
    by (simp add: ex_simps)
  have c3: "exc_class_of denied \<noteq> FileNotFoundError"
    by (simp add: denied_def)
  note t1 = decide_file_first_match [of example_env repo "[u ''.git'', u ''config'']" 51200,
      THEN conjunct1, rule_format, of 60000]
  from t1 s1 v1
  have r1: "\<exists>info. decide_file example_env (repo @ [u ''.git'', u ''config'']) repo 51200 = Inr info
         \<and> info_size info = 60000 \<and> reason (decision info) = u ''ignored''"
    by blast
  note t2 = decide_file_first_match [of example_env repo "[u ''big.bin'']" 51200,
      THEN conjunct1, rule_format, of 60000]
  from t2 s2 v2
  have r2: "\<exists>info. decide_file example_env (repo @ [u ''big.bin'']) repo 51200 = Inr info
         \<and> reason (decision info) = u ''too_large''"
    by fastforce
  note t3 = decide_file_first_match [of example_env repo "[u ''locked'', u ''x.txt'']" 51200,
      THEN conjunct2, rule_format, of denied]
  from t3 s3 c3
  have r3: "decide_file example_env (repo @ [u ''locked'', u ''x.txt'']) repo 51200 = Inl denied"
    by blast
  have g: "(60000 :: int) > 51200"
    by simp
  from s1 v1 g r1 s2 v2 b2 r2 s3 c3 r3 show ?thesis
    by (simp only: simp_thms)
qed


text \<open>
  C2. A file outside the version control directory is \<open>too_large\<close> exactly when its
  size is strictly greater than \<open>max_bytes\<close>: at a size equal to the limit it is not
  \<open>too_large\<close>, one byte more and it is; a file that does not look binary is
  included exactly when its size is at most the limit.
\<close>

theorem too_large_iff_size_exceeds:
  assumes "stat_or_zero w (root @ relp) = Inr sz" and "\<not> is_vcs_path (rel_str relp)"
  shows "\<exists>info. decide_file w (root @ relp) root mb = Inr info
           \<and> (reason (decision info) = u ''too_large'' \<longleftrightarrow> sz > mb)
           \<and> (sz = mb \<longrightarrow> reason (decision info) \<noteq> u ''too_large'')
           \<and> (sz = mb + 1 \<longrightarrow> reason (decision info) = u ''too_large'')
           \<and> (\<not> looks_binary w (root @ relp) \<longrightarrow>
                 (include_flag (decision info) \<longleftrightarrow> sz \<le> mb)
                 \<and> (reason (decision info) = u ''ok'' \<longleftrightarrow> sz \<le> mb))"
  using assms reason_distinct
  by (auto simp add: decide_file_under file_info_def)



theorem too_large_iff_size_exceeds_witness:
  "stat_or_zero example_env (repo @ [u ''exact.txt'']) = Inr 51200
   \<and> \<not> is_vcs_path (rel_str [u ''exact.txt''])
   \<and> \<not> looks_binary example_env (repo @ [u ''exact.txt''])
   \<and> (\<exists>info. decide_file example_env (repo @ [u ''exact.txt'']) repo 51200 = Inr info
         \<and> reason (decision info) = u ''ok'' \<and> include_flag (decision info))
   \<and> (\<exists>info. decide_file example_env (repo @ [u ''exact.txt'']) repo 51199 = Inr info
         \<and> reason (decision info) = u ''too_large'')"
proof -
  have h: "stat_or_zero example_env (repo @ [u ''exact.txt'']) = Inr 51200"
    by (simp add: ex_simps)
  have v: "\<not> is_vcs_path (rel_str [u ''exact.txt''])"
    by (simp add: ex_simps)
  have b: "\<not> looks_binary example_env (repo @ [u ''exact.txt''])"
    by (simp add: ex_simps binary_simps list_all_iff)
  from too_large_iff_size_exceeds [of example_env repo "[u ''exact.txt'']" 51200 51200]
    too_large_iff_size_exceeds [of example_env repo "[u ''exact.txt'']" 51200 51199] h v b
  show ?thesis
    by auto
qed

text \<open>
  C3, as stated, fails on two inputs. \<open>stat\<close> on \<open>/repo/locked/x.txt\<close> raises
  \<open>PermissionError\<close>, which \<open>except FileNotFoundError\<close> does not catch: the exception
  leaves \<open>decide_file\<close>. \<open>/repo/big_secret.txt\<close> cannot be opened, and is
  \<open>too_large\<close>, not \<open>binary\<close>, since the size test comes first.
\<close>

theorem stat_error_escapes:
  "stat_size example_env (repo @ [u ''locked'', u ''x.txt'']) = Inl denied
   \<and> decide_file example_env (repo @ [u ''locked'', u ''x.txt'']) repo 51200 = Inl denied
   \<and> file_bytes example_env (repo @ [u ''big_secret.txt'']) = Inl denied
   \<and> decide_file example_env (repo @ [u ''big_secret.txt'']) repo 51200 =
       Inr (file_info (repo @ [u ''big_secret.txt'']) (u ''big_secret.txt'') 60000 False (u ''too_large''))"
  unfolding decide_file_under by (simp add: ex_simps)

lemma decide_file_returns:
  assumes "\<forall>e. stat_size w (root @ relp) = Inl e \<longrightarrow> exc_class_of e = FileNotFoundError"
  shows "\<exists>info. decide_file w (root @ relp) root mb = Inr info"
proof -
  from assms obtain sz where "stat_or_zero w (root @ relp) = Inr sz"
    by (cases "stat_size w (root @ relp)") (auto simp: stat_or_zero_def)
  then show ?thesis
    by (simp add: decide_file_under)
qed

text \<open>
  C3, amended. When \<open>stat\<close> succeeds or raises \<open>FileNotFoundError\<close>, classifying a
  file of the repository returns a record: the size is the one \<open>stat\<close> gave, and 0 for
  a missing file; a file that cannot be opened or read is \<open>binary\<close> and not included,
  when it is neither a path of the version control directory nor larger than the limit.
  Every other exception of \<open>stat\<close> is not caught: it is the result of \<open>decide_file\<close>.
\<close>

theorem decide_file_total_or_propagates:
  "((\<forall>e. stat_size w (root @ relp) = Inl e \<longrightarrow> exc_class_of e = FileNotFoundError) \<longrightarrow>
      (\<exists>info. decide_file w (root @ relp) root mb = Inr info
         \<and> (\<forall>n. stat_size w (root @ relp) = Inr n \<longrightarrow> info_size info = n)
         \<and> ((\<exists>e. stat_size w (root @ relp) = Inl e) \<longrightarrow> info_size info = 0)
         \<and> ((\<exists>e. file_bytes w (root @ relp) = Inl e) \<and> \<not> is_vcs_path (rel_str relp)
               \<and> \<not> info_size info > mb \<longrightarrow>
               reason (decision info) = u ''binary'' \<and> \<not> include_flag (decision info))))
   \<and> (\<forall>e. stat_size w (root @ relp) = Inl e \<and> exc_class_of e \<noteq> FileNotFoundError \<longrightarrow>
          decide_file w (root @ relp) root mb = Inl e)"
proof (intro conjI allI impI)
  assume a: "\<forall>e. stat_size w (root @ relp) = Inl e \<longrightarrow> exc_class_of e = FileNotFoundError"
  show "\<exists>info. decide_file w (root @ relp) root mb = Inr info
         \<and> (\<forall>n. stat_size w (root @ relp) = Inr n \<longrightarrow> info_size info = n)
         \<and> ((\<exists>e. stat_size w (root @ relp) = Inl e) \<longrightarrow> info_size info = 0)
         \<and> ((\<exists>e. file_bytes w (root @ relp) = Inl e) \<and> \<not> is_vcs_path (rel_str relp)
               \<and> \<not> info_size info > mb \<longrightarrow>
               reason (decision info) = u ''binary'' \<and> \<not> include_flag (decision info))"
  proof (cases "stat_size w (root @ relp)")
    case (Inl e)
    with a have "stat_or_zero w (root @ relp) = Inr 0"
      by (simp add: stat_or_zero_def)
    with Inl show ?thesis
      by (auto simp: decide_file_under file_info_def looks_binary_def)
  next
    case (Inr n)
    then have "stat_or_zero w (root @ relp) = Inr n"
      by (simp add: stat_or_zero_def)
    with Inr show ?thesis
      by (auto simp: decide_file_under file_info_def looks_binary_def)
  qed
next
  fix e
  assume "stat_size w (root @ relp) = Inl e \<and> exc_class_of e \<noteq> FileNotFoundError"
  then show "decide_file w (root @ relp) root mb = Inl e"
    by (simp add: decide_file_propagates)
qed

theorem decide_file_total_or_propagates_witness:
  "stat_size example_env (repo @ [u ''secret.txt'']) = Inr 4
   \<and> file_bytes example_env (repo @ [u ''secret.txt'']) = Inl denied
   \<and> (\<exists>info. decide_file example_env (repo @ [u ''secret.txt'']) repo 51200 = Inr info
         \<and> info_size info = 4 \<and> reason (decision info) = u ''binary'')
   \<and> stat_size example_env (repo @ [u ''gone.txt'']) = Inl missing
   \<and> exc_class_of missing = FileNotFoundError
   \<and> (\<exists>info. decide_file example_env (repo @ [u ''gone.txt'']) repo 51200 = Inr info
         \<and> info_size info = 0 \<and> reason (decision info) = u ''binary'')
   \<and> stat_size example_env (repo @ [u ''locked'', u ''x.txt'']) = Inl denied
   \<and> exc_class_of denied \<noteq> FileNotFoundError
   \<and> decide_file example_env (repo @ [u ''locked'', u ''x.txt'']) repo 51200 = Inl denied"
proof -
  have s1: "stat_size example_env (repo @ [u ''secret.txt'']) = Inr 4"
    by (simp add: ex_simps)
  have b1: "file_bytes example_env (repo @ [u ''secret.txt'']) = Inl denied"
    by (simp add: ex_simps)
  have v1: "\<not> is_vcs_path (rel_str [u ''secret.txt''])"
    by (simp add: ex_simps)
  have s2: "stat_size example_env (repo @ [u ''gone.txt'']) = Inl missing"
    by (simp add: ex_simps)
  have b2: "file_bytes example_env (repo @ [u ''gone.txt'']) = Inl missing"
    by (simp add: ex_simps)
  have v2: "\<not> is_vcs_path (rel_str [u ''gone.txt''])"
    by (simp add: ex_simps)
  have c: "exc_class_of missing = FileNotFoundError"
    by (simp add: missing_def)
  have s3: "stat_size example_env (repo @ [u ''locked'', u ''x.txt'']) = Inl denied"
    by (simp add: ex_simps)
  have c3: "exc_class_of denied \<noteq> FileNotFoundError"
    by (simp add: denied_def)
  have h1: "\<forall>e. stat_size example_env (repo @ [u ''secret.txt'']) = Inl e \<longrightarrow> exc_class_of e = FileNotFoundError"
    using s1 by simp
  have h2: "\<forall>e. stat_size example_env (repo @ [u ''gone.txt'']) = Inl e \<longrightarrow> exc_class_of e = FileNotFoundError"
    using s2 c by simp
  note t1 = decide_file_total_or_propagates [of example_env repo "[u ''secret.txt'']" 51200,
      THEN conjunct1, THEN mp, OF h1]
  from t1 s1 b1 v1
  have r1: "\<exists>info. decide_file example_env (repo @ [u ''secret.txt'']) repo 51200 = Inr info
         \<and> info_size info = 4 \<and> reason (decision info) = u ''binary''"
    by auto
  note t2 = decide_file_total_or_propagates [of example_env repo "[u ''gone.txt'']" 51200,
      THEN conjunct1, THEN mp, OF h2]
  from t2 s2 b2 v2
  have r2: "\<exists>info. decide_file example_env (repo @ [u ''gone.txt'']) repo 51200 = Inr info
         \<and> info_size info = 0 \<and> reason (decision info) = u ''binary''"
    by auto
  note t3 = decide_file_total_or_propagates [of example_env repo "[u ''locked'', u ''x.txt'']" 51200,
      THEN conjunct2, rule_format, of denied]
  from t3 s3 c3
  have r3: "decide_file example_env (repo @ [u ''locked'', u ''x.txt'']) repo 51200 = Inl denied"
    by blast
  from s1 b1 r1 s2 c r2 s3 c3 r3 show ?thesis
    by (simp only: simp_thms)
qed


subsection \<open>Lists of records\<close>

text \<open>
  A list \<open>infos\<close> of records is the classification of the list \<open>ps\<close> of paths when
  \<open>decide_file\<close> returns the records for the paths, one by one. \<open>collect_files\<close>
  produces such a list: it classifies the tracked names that are regular files, in
  sorted order.
\<close>

lemma decide_file_reason:
  assumes "decide_file w p root mb = Inr info"
  shows "(include_flag (decision info) \<and> reason (decision info) = u ''ok'')
         \<or> (\<not> include_flag (decision info) \<and> reason (decision info) = u ''ignored'')
         \<or> (\<not> include_flag (decision info) \<and> reason (decision info) = u ''too_large'')
         \<or> (\<not> include_flag (decision info) \<and> reason (decision info) = u ''binary'')"
  using assms
  by (auto simp: decide_file_def file_info_def Let_def split: sum.splits if_splits)

lemma buckets_mset:
  assumes "\<forall>i \<in> set infos.
     (include_flag (decision i) \<and> reason (decision i) = u ''ok'')
     \<or> (\<not> include_flag (decision i) \<and> reason (decision i) = u ''ignored'')
     \<or> (\<not> include_flag (decision i) \<and> reason (decision i) = u ''too_large'')
     \<or> (\<not> include_flag (decision i) \<and> reason (decision i) = u ''binary'')"
  shows "mset (rendered infos) + mset (skipped_binary infos) + mset (skipped_large infos)
           + mset (skipped_ignored infos) = mset infos"
  using assms reason_distinct
  by (induction infos)
     (auto simp: rendered_def skipped_binary_def skipped_large_def skipped_ignored_def)

lemma classified_all:
  assumes "list_all2 (\<lambda>p info. decide_file w p root mb = Inr info) ps infos"
  shows "\<forall>i \<in> set infos.
     (include_flag (decision i) \<and> reason (decision i) = u ''ok'')
     \<or> (\<not> include_flag (decision i) \<and> reason (decision i) = u ''ignored'')
     \<or> (\<not> include_flag (decision i) \<and> reason (decision i) = u ''too_large'')
     \<or> (\<not> include_flag (decision i) \<and> reason (decision i) = u ''binary'')"
proof
  fix i assume "i \<in> set infos"
  then obtain k where k: "k < length infos" "infos ! k = i"
    by (auto simp: in_set_conv_nth)
  with assms have "decide_file w (ps ! k) root mb = Inr i"
    by (auto simp: list_all2_conv_all_nth)
  then show "(include_flag (decision i) \<and> reason (decision i) = u ''ok'')
     \<or> (\<not> include_flag (decision i) \<and> reason (decision i) = u ''ignored'')
     \<or> (\<not> include_flag (decision i) \<and> reason (decision i) = u ''too_large'')
     \<or> (\<not> include_flag (decision i) \<and> reason (decision i) = u ''binary'')"
    by (rule decide_file_reason)
qed

lemma collect_loop_classified:
  "collect_loop w root mb rels acc = Inr infos \<Longrightarrow>
     \<exists>new. infos = acc @ new
       \<and> list_all2 (\<lambda>p info. decide_file w p root mb = Inr info)
            (filter (\<lambda>p. is_file w p = Inr True) (map (joinpath root) rels)) new"
proof (induction rels arbitrary: acc)
  case Nil
  then show ?case by simp
next
  case (Cons r rels)
  then show ?case
    by (fastforce simp: Let_def split: sum.splits bool.splits)
qed

lemma collect_files_classified:
  assumes "collect_files w tracked root mb = Inr infos"
  shows "list_all2 (\<lambda>p info. decide_file w p root mb = Inr info)
           (filter (\<lambda>p. is_file w p = Inr True) (map (joinpath root) (sort (remdups tracked))))
           infos"
  using collect_loop_classified [of w root mb "sort (remdups tracked)" "[]" infos] assms
  by (simp add: collect_files_def)

lemma example_classified:
  "list_all2 (\<lambda>p info. decide_file example_env p repo 51200 = Inr info)
     example_candidates example_infos"
  unfolding example_candidates_def example_infos_def list_all2_Cons list_all2_Nil decide_file_under
  by (simp add: ex_simps binary_simps list_all_iff)

lemma buckets_partition_candidates:
  assumes "list_all2 (\<lambda>p info. decide_file w p root mb = Inr info) ps infos"
  shows "length infos = length ps
         \<and> total_files infos = length ps
         \<and> mset (rendered infos) + mset (skipped_binary infos) + mset (skipped_large infos)
             + mset (skipped_ignored infos) = mset infos
         \<and> (\<forall>i \<in> set infos. reason (decision i) \<in> {u ''ok'', u ''ignored'', u ''too_large'', u ''binary''})"
proof -
  note c = classified_all [OF assms]
  have len: "length infos = length ps"
    using assms by (simp add: list_all2_lengthD)
  have m: "mset (rendered infos) + mset (skipped_binary infos) + mset (skipped_large infos)
             + mset (skipped_ignored infos) = mset infos"
    using c by (rule buckets_mset)
  have "size (mset (rendered infos) + mset (skipped_binary infos) + mset (skipped_large infos)
             + mset (skipped_ignored infos)) = size (mset infos)"
    using m by simp
  then have t: "total_files infos = length infos"
    by (simp add: total_files_def)
  have r: "\<forall>i \<in> set infos. reason (decision i) \<in> {u ''ok'', u ''ignored'', u ''too_large'', u ''binary''}"
    using c by auto
  from len t m r show ?thesis
    by simp
qed

lemma example_listing_sorted:
  "sort (remdups example_listing) = [u ''README.md'', u ''big.bin'', u ''gone.txt'', u ''src/a.py'']"
  by (simp add: example_listing_def u_def)

lemma example_joined:
  "joinpath repo (u ''README.md'') = repo @ [u ''README.md'']"
  "joinpath repo (u ''big.bin'') = repo @ [u ''big.bin'']"
  "joinpath repo (u ''gone.txt'') = repo @ [u ''gone.txt'']"
  "joinpath repo (u ''src/a.py'') = repo @ [u ''src'', u ''a.py'']"
  by (simp_all add: joinpath_def path_parts_def str_split_def startswith_def u_def)

lemma example_is_files:
  "is_file example_env (repo @ [u ''README.md'']) = Inr True"
  "is_file example_env (repo @ [u ''big.bin'']) = Inr True"
  "is_file example_env (repo @ [u ''gone.txt'']) = Inr False"
  "is_file example_env (repo @ [u ''src'', u ''a.py'']) = Inr True"
  by (simp_all add: ex_simps)

lemma example_decided:
  "decide_file example_env (repo @ [u ''README.md'']) repo 51200 =
     Inr (file_info (repo @ [u ''README.md'']) (u ''README.md'') 5 True (u ''ok''))"
  "decide_file example_env (repo @ [u ''big.bin'']) repo 51200 =
     Inr (file_info (repo @ [u ''big.bin'']) (u ''big.bin'') 60000 False (u ''too_large''))"
  "decide_file example_env (repo @ [u ''src'', u ''a.py'']) repo 51200 =
     Inr (file_info (repo @ [u ''src'', u ''a.py'']) (u ''src/a.py'') 9 True (u ''ok''))"
  unfolding decide_file_under by (simp_all add: ex_simps binary_simps list_all_iff)

lemma example_collect:
  "collect_files example_env example_listing repo 51200 = Inr example_collected"
  by (simp add: collect_files_def example_listing_sorted example_joined example_is_files
      example_decided example_collected_def)


lemma joinpath_relative: "\<not> startswith r (u ''/'') \<Longrightarrow> joinpath root r = root @ path_parts r"
  by (simp add: joinpath_def)

lemma collect_loop_total:
  assumes "\<forall>r \<in> set rels. \<not> startswith r (u ''/'')
             \<and> (\<exists>b. is_file w (joinpath root r) = Inr b)
             \<and> (\<forall>e. stat_size w (joinpath root r) = Inl e \<longrightarrow> exc_class_of e = FileNotFoundError)"
  shows "\<exists>infos. collect_loop w root mb rels acc = Inr infos"
  using assms
proof (induction rels arbitrary: acc)
  case Nil
  then show ?case by simp
next
  case (Cons r rels)
  from Cons.prems obtain b where b: "is_file w (joinpath root r) = Inr b"
    by auto
  from Cons.prems have rest: "\<forall>r \<in> set rels. \<not> startswith r (u ''/'')
             \<and> (\<exists>b. is_file w (joinpath root r) = Inr b)
             \<and> (\<forall>e. stat_size w (joinpath root r) = Inl e \<longrightarrow> exc_class_of e = FileNotFoundError)"
    by simp
  show ?case
  proof (cases b)
    case False
    with b Cons.IH [OF rest] show ?thesis
      by (simp add: Let_def)
  next
    case True
    from Cons.prems have j: "joinpath root r = root @ path_parts r"
      by (simp add: joinpath_relative)
    from Cons.prems have "\<forall>e. stat_size w (root @ path_parts r) = Inl e \<longrightarrow>
        exc_class_of e = FileNotFoundError"
      using j by simp
    then obtain info where "decide_file w (root @ path_parts r) root mb = Inr info"
      using decide_file_returns by blast
    with True b j Cons.IH [OF rest, of "acc @ [info]"] show ?thesis
      by (simp add: Let_def)
  qed
qed

text \<open>
  C4, as stated for every list of candidates, fails on two listings. \<open>collect_files\<close>
  classifies only the tracked names that are regular files: \<open>gone.txt\<close> is tracked but
  missing, it gets no record, and the four lists hold 3 records for 4 candidates. And
  when \<open>is_file\<close> or \<open>decide_file\<close> raises, as for \<open>locked/x.txt\<close>, the exception
  leaves \<open>collect_files\<close> and no candidate gets a record.
\<close>

theorem collect_files_drops_candidates:
  "collect_files example_env example_listing repo 51200 = Inr example_collected
   \<and> distinct example_listing
   \<and> length example_listing = 4
   \<and> total_files example_collected = 3
   \<and> u ''gone.txt'' \<in> set example_listing
   \<and> u ''gone.txt'' \<notin> set (map info_rel example_collected)
   \<and> collect_files example_env [u ''README.md'', u ''locked/x.txt''] repo 51200 = Inl denied"
proof -
  have a: "distinct example_listing \<and> length example_listing = 4
      \<and> u ''gone.txt'' \<in> set example_listing"
    by (simp add: example_listing_def u_def)
  have b: "total_files example_collected = 3
      \<and> u ''gone.txt'' \<notin> set (map info_rel example_collected)"
    by (simp add: example_collected_def total_files_def rendered_def skipped_binary_def
        skipped_large_def skipped_ignored_def file_info_def u_def)
  have s: "sort (remdups [u ''README.md'', u ''locked/x.txt'']) = [u ''README.md'', u ''locked/x.txt'']"
    by (simp add: u_def)
  have j: "joinpath repo (u ''locked/x.txt'') = repo @ [u ''locked'', u ''x.txt'']"
    by (simp add: joinpath_def path_parts_def str_split_def startswith_def u_def)
  have f: "is_file example_env (repo @ [u ''locked'', u ''x.txt'']) = Inl denied"
    by (simp add: ex_simps)
  have c: "collect_files example_env [u ''README.md'', u ''locked/x.txt''] repo 51200 = Inl denied"
    by (simp add: collect_files_def s j f example_joined example_is_files example_decided)
  from example_collect a b c show ?thesis
    by (simp only: simp_thms)
qed

text \<open>
  C4, amended. Whenever \<open>collect_files\<close> returns, its records are the classification
  of the tracked names (sorted, without duplicates) that are regular files, one record
  for each and in that order; every record has exactly one of the four reasons, and the
  four lists computed by \<open>build_html\<close> partition the records: together they hold each
  record once, and their lengths sum to the number of records, which is the number of
  candidates that are regular files. \<open>collect_files\<close> returns when every tracked name
  is relative, \<open>is_file\<close> does not raise on it, and \<open>stat\<close> either succeeds or raises
  \<open>FileNotFoundError\<close>.
\<close>

theorem collect_files_buckets_partition:
  "(\<forall>infos. collect_files w tracked root mb = Inr infos \<longrightarrow>
      list_all2 (\<lambda>p info. decide_file w p root mb = Inr info)
        (filter (\<lambda>p. is_file w p = Inr True) (map (joinpath root) (sort (remdups tracked))))
        infos
      \<and> length infos =
          length (filter (\<lambda>p. is_file w p = Inr True)
                    (map (joinpath root) (sort (remdups tracked))))
      \<and> total_files infos = length infos
      \<and> mset (rendered infos) + mset (skipped_binary infos) + mset (skipped_large infos)
          + mset (skipped_ignored infos) = mset infos
      \<and> (\<forall>i \<in> set infos.
            reason (decision i) \<in> {u ''ok'', u ''ignored'', u ''too_large'', u ''binary''}))
   \<and> ((\<forall>r \<in> set tracked. \<not> startswith r (u ''/'')
          \<and> (\<exists>b. is_file w (joinpath root r) = Inr b)
          \<and> (\<forall>e. stat_size w (joinpath root r) = Inl e \<longrightarrow>
                exc_class_of e = FileNotFoundError)) \<longrightarrow>
       (\<exists>infos. collect_files w tracked root mb = Inr infos))"
proof (intro conjI allI impI)
  fix infos
  assume c: "collect_files w tracked root mb = Inr infos"
  let ?ps = "filter (\<lambda>p. is_file w p = Inr True) (map (joinpath root) (sort (remdups tracked)))"
  from c show l: "list_all2 (\<lambda>p info. decide_file w p root mb = Inr info) ?ps infos"
    by (rule collect_files_classified)
  note p = buckets_partition_candidates [OF l]
  from p show "length infos = length ?ps"
    by blast
  from p show "total_files infos = length infos"
    by simp
  from p show "mset (rendered infos) + mset (skipped_binary infos) + mset (skipped_large infos)
          + mset (skipped_ignored infos) = mset infos"
    by blast
  from p show "\<forall>i \<in> set infos.
            reason (decision i) \<in> {u ''ok'', u ''ignored'', u ''too_large'', u ''binary''}"
    by blast
next
  assume "\<forall>r \<in> set tracked. \<not> startswith r (u ''/'')
          \<and> (\<exists>b. is_file w (joinpath root r) = Inr b)
          \<and> (\<forall>e. stat_size w (joinpath root r) = Inl e \<longrightarrow>
                exc_class_of e = FileNotFoundError)"
  then have "\<forall>r \<in> set (sort (remdups tracked)). \<not> startswith r (u ''/'')
          \<and> (\<exists>b. is_file w (joinpath root r) = Inr b)
          \<and> (\<forall>e. stat_size w (joinpath root r) = Inl e \<longrightarrow>
                exc_class_of e = FileNotFoundError)"
    by simp
  then show "\<exists>infos. collect_files w tracked root mb = Inr infos"
    unfolding collect_files_def by (rule collect_loop_total)
qed


lemma example_listing_good:
  "\<forall>r \<in> set example_listing. \<not> startswith r (u ''/'')
     \<and> (\<exists>b. is_file example_env (joinpath repo r) = Inr b)
     \<and> (\<forall>e. stat_size example_env (joinpath repo r) = Inl e \<longrightarrow>
           exc_class_of e = FileNotFoundError)"
proof -
  have n: "\<not> startswith (u ''README.md'') (u ''/'')" "\<not> startswith (u ''src/a.py'') (u ''/'')"
    "\<not> startswith (u ''gone.txt'') (u ''/'')" "\<not> startswith (u ''big.bin'') (u ''/'')"
    by (simp_all add: startswith_def u_def)
  have s: "stat_size example_env (repo @ [u ''README.md'']) = Inr 5"
    "stat_size example_env (repo @ [u ''src'', u ''a.py'']) = Inr 9"
    "stat_size example_env (repo @ [u ''gone.txt'']) = Inl missing"
    "stat_size example_env (repo @ [u ''big.bin'']) = Inr 60000"
    by (simp_all add: ex_simps)
  have c: "exc_class_of missing = FileNotFoundError"
    by (simp add: missing_def)
  show ?thesis
    unfolding example_listing_def
    by (auto simp: n s c example_joined example_is_files)
qed

theorem collect_files_buckets_partition_witness:
  "collect_files example_env example_listing repo 51200 = Inr example_collected
   \<and> length example_collected = 3
   \<and> total_files example_collected = 3
   \<and> length (rendered example_collected) = 2
   \<and> length (skipped_large example_collected) = 1
   \<and> length (skipped_binary example_collected) = 0
   \<and> length (skipped_ignored example_collected) = 0
   \<and> (\<exists>infos. collect_files example_env example_listing repo 51200 = Inr infos)"
proof -
  note t = collect_files_buckets_partition [of example_env example_listing repo 51200]
  have n: "length example_collected = 3"
    by (simp add: example_collected_def)
  from t [THEN conjunct1, rule_format, OF example_collect]
  have "total_files example_collected = length example_collected"
    by (rule conjunct1 [OF conjunct2 [OF conjunct2]])
  with n have tot: "total_files example_collected = 3"
    by simp
  have b: "length (rendered example_collected) = 2 \<and> length (skipped_large example_collected) = 1
     \<and> length (skipped_binary example_collected) = 0 \<and> length (skipped_ignored example_collected) = 0"
    by (simp add: example_collected_def rendered_def skipped_binary_def
        skipped_large_def skipped_ignored_def file_info_def u_def)
  from t [THEN conjunct2, THEN mp, OF example_listing_good]
  have ex: "\<exists>infos. collect_files example_env example_listing repo 51200 = Inr infos" .
  from example_collect n tot b ex show ?thesis
    by (simp only: simp_thms)
qed


lemma flag_of_reason:
  assumes "(inc \<and> r = u ''ok'')
     \<or> (\<not> inc \<and> r = u ''ignored'')
     \<or> (\<not> inc \<and> r = u ''too_large'')
     \<or> (\<not> inc \<and> r = u ''binary'')"
  shows "(inc \<longleftrightarrow> r = u ''ok'') \<and> (\<not> inc \<longleftrightarrow> r \<in> {u ''ignored'', u ''too_large'', u ''binary''})"
  using assms reason_distinct by (elim disjE) simp_all

text \<open>
  C10. In every record that the classification produces the flag \<open>include\<close> is set
  exactly when the reason is \<open>ok\<close>, and cleared exactly when the reason is
  \<open>ignored\<close>, \<open>too_large\<close> or \<open>binary\<close>: selecting records by the flag and by the
  reason gives the same lists.
\<close>

theorem include_iff_reason_ok:
  assumes "list_all2 (\<lambda>p info. decide_file w p root mb = Inr info) ps infos"
  shows "(\<forall>i \<in> set infos. include_flag (decision i) \<longleftrightarrow> reason (decision i) = u ''ok'')
         \<and> (\<forall>i \<in> set infos. \<not> include_flag (decision i) \<longleftrightarrow>
               reason (decision i) \<in> {u ''ignored'', u ''too_large'', u ''binary''})
         \<and> rendered infos = filter (\<lambda>i. reason (decision i) = u ''ok'') infos
         \<and> filter (\<lambda>i. \<not> include_flag (decision i)) infos =
             filter (\<lambda>i. reason (decision i) \<in> {u ''ignored'', u ''too_large'', u ''binary''}) infos"
proof -
  note c = classified_all [OF assms]
  have a: "\<forall>i \<in> set infos. include_flag (decision i) \<longleftrightarrow> reason (decision i) = u ''ok''"
    using c flag_of_reason by blast
  have b: "\<forall>i \<in> set infos. \<not> include_flag (decision i) \<longleftrightarrow>
               reason (decision i) \<in> {u ''ignored'', u ''too_large'', u ''binary''}"
    using c flag_of_reason by blast
  have f1: "rendered infos = filter (\<lambda>i. reason (decision i) = u ''ok'') infos"
    unfolding rendered_def by (rule filter_cong [OF refl]) (use a in blast)
  have f2: "filter (\<lambda>i. \<not> include_flag (decision i)) infos =
             filter (\<lambda>i. reason (decision i) \<in> {u ''ignored'', u ''too_large'', u ''binary''}) infos"
    by (rule filter_cong [OF refl]) (use b in blast)
  from a b f1 f2 show ?thesis
    by (intro conjI)
qed

theorem include_iff_reason_ok_witness:
  "list_all2 (\<lambda>p info. decide_file example_env p repo 51200 = Inr info)
     example_candidates example_infos
   \<and> rendered example_infos = take 2 example_infos
   \<and> filter (\<lambda>i. reason (decision i) = u ''ok'') example_infos = take 2 example_infos
   \<and> filter (\<lambda>i. \<not> include_flag (decision i)) example_infos = drop 2 example_infos"
proof -
  have r: "rendered example_infos = take 2 example_infos"
    by (simp add: example_infos_def rendered_def file_info_def)
  have d: "filter (\<lambda>i. \<not> include_flag (decision i)) example_infos = drop 2 example_infos"
    by (simp add: example_infos_def file_info_def)
  from include_iff_reason_ok [OF example_classified]
  have f: "rendered example_infos = filter (\<lambda>i. reason (decision i) = u ''ok'') example_infos"
    by (rule conjunct1 [OF conjunct2 [OF conjunct2]])
  from f r d example_classified show ?thesis
    by (simp only: simp_thms)
qed


section \<open>Properties of minify_code\<close>

text \<open>
  \<open>minify_code\<close> looks the lower-cased extension up, so that the branch taken depends
  on \<open>str_lower w ext\<close> only.
\<close>

lemma minifiable_lookup:
  "MINIFIABLE_EXTENSIONS (u ''.py'') = Some (u ''python'')"
  "MINIFIABLE_EXTENSIONS (u ''.json'') = Some (u ''json'')"
  "MINIFIABLE_EXTENSIONS (u ''.js'') = Some (u ''javascript'')"
  "MINIFIABLE_EXTENSIONS (u ''.css'') = Some (u ''css'')"
  "MINIFIABLE_EXTENSIONS (u ''.html'') = Some (u ''html'')"
  "MINIFIABLE_EXTENSIONS (u ''.htm'') = Some (u ''html'')"
  by (simp_all add: MINIFIABLE_EXTENSIONS_def u_def)

lemma minifiable_none:
  "x \<notin> {u ''.py'', u ''.json'', u ''.js'', u ''.css'', u ''.html'', u ''.htm''} \<Longrightarrow>
     MINIFIABLE_EXTENSIONS x = None"
  by (simp add: MINIFIABLE_EXTENSIONS_def)

lemma type_distinct:
  "u ''python'' \<noteq> u ''javascript''" "u ''python'' \<noteq> u ''css''" "u ''python'' \<noteq> u ''html''"
  "u ''python'' \<noteq> u ''json''" "u ''javascript'' \<noteq> u ''css''" "u ''javascript'' \<noteq> u ''html''"
  "u ''javascript'' \<noteq> u ''json''" "u ''css'' \<noteq> u ''html''" "u ''css'' \<noteq> u ''json''"
  "u ''html'' \<noteq> u ''json''"
  by (simp_all add: u_def)

lemma call_module_result:
  "call_module m text = text \<or> (\<exists>f. m = Some f \<and> f text = Inr (call_module m text))"
  by (auto simp: call_module_def split: option.splits sum.splits)

lemma call_module_fallback:
  "m = None \<or> (\<exists>f e. m = Some f \<and> f text = Inl e) \<Longrightarrow> call_module m text = text"
  by (auto simp: call_module_def)

lemma minify_unsupported:
  assumes "str_lower w ext \<notin> {u ''.py'', u ''.json'', u ''.js'', u ''.css'', u ''.html'', u ''.htm''}"
  shows "minify_code w text ext = text"
  using minifiable_none [OF assms] by (simp add: minify_code_def Let_def)

lemma minify_py:
  assumes "str_lower w ext = u ''.py''"
  shows "minify_code w text ext = call_module (python_minifier w) text"
  using assms type_distinct
  by (auto simp: minify_code_def minifiable_lookup Let_def call_module_def split: option.splits)

lemma minify_js:
  assumes "str_lower w ext = u ''.js''"
  shows "minify_code w text ext = call_module (rjsmin w) text"
  using assms type_distinct
  by (auto simp: minify_code_def minifiable_lookup Let_def call_module_def split: option.splits)

lemma minify_css:
  assumes "str_lower w ext = u ''.css''"
  shows "minify_code w text ext = call_module (rcssmin w) text"
  using assms type_distinct
  by (auto simp: minify_code_def minifiable_lookup Let_def call_module_def split: option.splits)

lemma minify_html:
  assumes "str_lower w ext = u ''.html'' \<or> str_lower w ext = u ''.htm''"
  shows "minify_code w text ext = call_module (htmlmin w) text"
  using assms type_distinct
  by (auto simp: minify_code_def minifiable_lookup Let_def call_module_def split: option.splits)

lemma minify_json:
  assumes "str_lower w ext = u ''.json''"
  shows "minify_code w text ext =
           (case json_loads w text of
              Inl e \<Rightarrow> text
            | Inr parsed \<Rightarrow> (case json_dumps w parsed of Inl e \<Rightarrow> text | Inr r \<Rightarrow> r))"
  using assms type_distinct
  by (simp add: minify_code_def minifiable_lookup Let_def split: sum.splits)


lemmas minify_ex_simps = example_env_def example_python_minifier_def example_json_loads_def
  ascii_lower_def u_def

text \<open>
  C5, as stated, fails for an extension written in upper case: \<open>.PY\<close> is not one of
  \<open>.py\<close>, \<open>.json\<close>, \<open>.js\<close>, \<open>.css\<close>, \<open>.html\<close>, \<open>.htm\<close>, but the program
  lower-cases the extension before the lookup and minifies the text.
\<close>

theorem upper_case_extension_minified:
  "u ''.PY'' \<notin> {u ''.py'', u ''.json'', u ''.js'', u ''.css'', u ''.html'', u ''.htm''}
   \<and> minify_code example_env (u ''x = 1  #c'') (u ''.PY'') = u ''x=1''
   \<and> u ''x=1'' \<noteq> u ''x = 1  #c''"
  by (simp add: minify_py call_module_def minify_ex_simps)

text \<open>
  C5, amended. \<open>minify_code\<close> returns the text unchanged whenever the lower-cased
  extension is outside the supported set, whenever the module responsible for the
  extension was not imported or raises, and whenever the JSON text does not parse (or
  cannot be written back). It never raises, and its result is either the text itself or
  the complete output of one minifier on the whole text.
\<close>

theorem minify_code_fallback:
  "(str_lower w ext \<notin> {u ''.py'', u ''.json'', u ''.js'', u ''.css'', u ''.html'', u ''.htm''} \<longrightarrow>
      minify_code w text ext = text)
   \<and> (str_lower w ext = u ''.py''
        \<and> (python_minifier w = None \<or> (\<exists>f e. python_minifier w = Some f \<and> f text = Inl e)) \<longrightarrow>
      minify_code w text ext = text)
   \<and> (str_lower w ext = u ''.js''
        \<and> (rjsmin w = None \<or> (\<exists>f e. rjsmin w = Some f \<and> f text = Inl e)) \<longrightarrow>
      minify_code w text ext = text)
   \<and> (str_lower w ext = u ''.css''
        \<and> (rcssmin w = None \<or> (\<exists>f e. rcssmin w = Some f \<and> f text = Inl e)) \<longrightarrow>
      minify_code w text ext = text)
   \<and> ((str_lower w ext = u ''.html'' \<or> str_lower w ext = u ''.htm'')
        \<and> (htmlmin w = None \<or> (\<exists>f e. htmlmin w = Some f \<and> f text = Inl e)) \<longrightarrow>
      minify_code w text ext = text)
   \<and> (str_lower w ext = u ''.json''
        \<and> ((\<exists>e. json_loads w text = Inl e)
             \<or> (\<exists>v e. json_loads w text = Inr v \<and> json_dumps w v = Inl e)) \<longrightarrow>
      minify_code w text ext = text)
   \<and> (minify_code w text ext = text
        \<or> (\<exists>f. Some f \<in> {python_minifier w, rjsmin w, rcssmin w, htmlmin w}
               \<and> f text = Inr (minify_code w text ext))
        \<or> (\<exists>v. json_loads w text = Inr v \<and> json_dumps w v = Inr (minify_code w text ext)))"
proof (intro conjI impI)
  assume "str_lower w ext \<notin> {u ''.py'', u ''.json'', u ''.js'', u ''.css'', u ''.html'', u ''.htm''}"
  then show "minify_code w text ext = text"
    by (rule minify_unsupported)
next
  assume "str_lower w ext = u ''.py''
    \<and> (python_minifier w = None \<or> (\<exists>f e. python_minifier w = Some f \<and> f text = Inl e))"
  then show "minify_code w text ext = text"
    by (simp add: minify_py call_module_fallback)
next
  assume "str_lower w ext = u ''.js''
    \<and> (rjsmin w = None \<or> (\<exists>f e. rjsmin w = Some f \<and> f text = Inl e))"
  then show "minify_code w text ext = text"
    by (simp add: minify_js call_module_fallback)
next
  assume "str_lower w ext = u ''.css''
    \<and> (rcssmin w = None \<or> (\<exists>f e. rcssmin w = Some f \<and> f text = Inl e))"
  then show "minify_code w text ext = text"
    by (simp add: minify_css call_module_fallback)
next
  assume "(str_lower w ext = u ''.html'' \<or> str_lower w ext = u ''.htm'')
    \<and> (htmlmin w = None \<or> (\<exists>f e. htmlmin w = Some f \<and> f text = Inl e))"
  then show "minify_code w text ext = text"
    by (simp add: minify_html call_module_fallback)
next
  assume "str_lower w ext = u ''.json''
    \<and> ((\<exists>e. json_loads w text = Inl e)
         \<or> (\<exists>v e. json_loads w text = Inr v \<and> json_dumps w v = Inl e))"
  then show "minify_code w text ext = text"
    by (auto simp: minify_json)
next
  let ?r = "minify_code w text ext"
  consider (none) "str_lower w ext \<notin> {u ''.py'', u ''.json'', u ''.js'', u ''.css'', u ''.html'', u ''.htm''}"
    | (py) "str_lower w ext = u ''.py''" | (js) "str_lower w ext = u ''.js''"
    | (css) "str_lower w ext = u ''.css''"
    | (html) "str_lower w ext = u ''.html'' \<or> str_lower w ext = u ''.htm''"
    | (json) "str_lower w ext = u ''.json''"
    by blast
  then show "?r = text
        \<or> (\<exists>f. Some f \<in> {python_minifier w, rjsmin w, rcssmin w, htmlmin w} \<and> f text = Inr ?r)
        \<or> (\<exists>v. json_loads w text = Inr v \<and> json_dumps w v = Inr ?r)"
  proof cases
    case none
    then show ?thesis by (simp add: minify_unsupported)
  next
    case py
    with call_module_result [of "python_minifier w" "text"] show ?thesis
      by (auto simp: minify_py)
  next
    case js
    with call_module_result [of "rjsmin w" "text"] show ?thesis
      by (auto simp: minify_js)
  next
    case css
    with call_module_result [of "rcssmin w" "text"] show ?thesis
      by (auto simp: minify_css)
  next
    case html
    with call_module_result [of "htmlmin w" "text"] show ?thesis
      by (auto simp: minify_html)
  next
    case json
    then show ?thesis
      by (auto simp: minify_json split: sum.splits)
  qed
qed

theorem minify_code_fallback_witness:
  "minify_code example_env (u ''hello'') (u ''.md'') = u ''hello''
   \<and> minify_code example_env (u ''def'') (u ''.py'') = u ''def''
   \<and> minify_code example_env (u ''a = 1'') (u ''.js'') = u ''a = 1''
   \<and> minify_code example_env (u ''{'') (u ''.json'') = u ''{''
   \<and> minify_code example_env (u ''x = 1  #c'') (u ''.py'') = u ''x=1''
   \<and> minify_code example_env (u ''[1, 2]'') (u ''.json'') = u ''[1,2]''"
proof -
  have a: "str_lower example_env (u ''.md'')
      \<notin> {u ''.py'', u ''.json'', u ''.js'', u ''.css'', u ''.html'', u ''.htm''}"
    by (simp add: minify_ex_simps)
  have b: "str_lower example_env (u ''.py'') = u ''.py''
      \<and> (python_minifier example_env = None
           \<or> (\<exists>f e. python_minifier example_env = Some f \<and> f (u ''def'') = Inl e))"
    by (simp add: minify_ex_simps)
  have c: "str_lower example_env (u ''.js'') = u ''.js''
      \<and> (rjsmin example_env = None \<or> (\<exists>f e. rjsmin example_env = Some f \<and> f (u ''a = 1'') = Inl e))"
    by (simp add: minify_ex_simps)
  have d: "str_lower example_env (u ''.json'') = u ''.json''
      \<and> ((\<exists>e. json_loads example_env (u ''{'') = Inl e)
           \<or> (\<exists>v e. json_loads example_env (u ''{'') = Inr v \<and> json_dumps example_env v = Inl e))"
    by (simp add: minify_ex_simps)
  have e: "minify_code example_env (u ''x = 1  #c'') (u ''.py'') = u ''x=1''"
    by (simp add: minify_py call_module_def minify_ex_simps)
  have f: "minify_code example_env (u ''[1, 2]'') (u ''.json'') = u ''[1,2]''"
    by (simp add: minify_json minify_ex_simps)
  from minify_code_fallback [of example_env "u ''.md''" "u ''hello''"] a
  have 1: "minify_code example_env (u ''hello'') (u ''.md'') = u ''hello''"
    by blast
  from minify_code_fallback [of example_env "u ''.py''" "u ''def''"] b
  have 2: "minify_code example_env (u ''def'') (u ''.py'') = u ''def''"
    by blast
  from minify_code_fallback [of example_env "u ''.js''" "u ''a = 1''"] c
  have 3: "minify_code example_env (u ''a = 1'') (u ''.js'') = u ''a = 1''"
    by blast
  from minify_code_fallback [of example_env "u ''.json''" "u ''{''"] d
  have 4: "minify_code example_env (u ''{'') (u ''.json'') = u ''{''"
    by blast
  from 1 2 3 4 e f show ?thesis
    by (intro conjI)
qed


section \<open>Properties of the document corpus\<close>

text \<open>
  \<open>lines\<close> starts with \<open><documents>\<close>, ends with \<open></documents>\<close>, and holds
  one block of six elements for each included record in between: the block of the
  record at position \<open>k\<close> (counted from 0) starts at index \<open>1 + 6 * k\<close>.
\<close>

lemma cxml_loop_concat:
  "cxml_loop w minify items lines =
     lines @ concat (map (\<lambda>(index, i). document_lines w minify index i) items)"
  by (induction items arbitrary: lines) auto

lemma document_lines_length: "length (document_lines w minify index i) = 6"
  by (simp add: document_lines_def)

lemma concat_blocks_length:
  "\<forall>b \<in> set bs. length b = n \<Longrightarrow> length (concat bs) = n * length bs"
  by (induction bs) auto

lemma concat_blocks_nth:
  "\<forall>b \<in> set bs. length b = n \<Longrightarrow> k < length bs \<Longrightarrow>
     take n (drop (n * k) (concat bs)) = bs ! k"
proof (induction bs arbitrary: k)
  case Nil
  then show ?case by simp
next
  case (Cons b bs)
  show ?case
  proof (cases k)
    case 0
    with Cons.prems show ?thesis by simp
  next
    case (Suc j)
    with Cons.prems have "take n (drop (n * j) (concat bs)) = bs ! j"
      by (intro Cons.IH) auto
    with Suc Cons.prems show ?thesis
      by (simp add: add.commute)
  qed
qed

lemma cxml_lines_blocks:
  "generate_cxml_lines w infos minify =
     [u ''<documents>'']
     @ concat (map (\<lambda>k. document_lines w minify (k + 1) (rendered infos ! k))
                 [0..<length (rendered infos)])
     @ [u ''</documents>'']"
proof -
  have "map (\<lambda>(index, i). document_lines w minify index i) (enumerate 1 (rendered infos))
        = map (\<lambda>k. document_lines w minify (k + 1) (rendered infos ! k))
            [0..<length (rendered infos)]"
    by (rule nth_equalityI) (simp_all add: nth_enumerate_eq)
  then show ?thesis
    by (simp add: generate_cxml_lines_def cxml_loop_concat rendered_def)
qed

lemma cxml_lines_length:
  "length (generate_cxml_lines w infos minify) = 6 * length (rendered infos) + 2"
  by (simp add: cxml_lines_blocks concat_blocks_length [where n = 6] document_lines_length)

lemma cxml_lines_block:
  assumes "k < length (rendered infos)"
  shows "take 6 (drop (1 + 6 * k) (generate_cxml_lines w infos minify)) =
           document_lines w minify (k + 1) (rendered infos ! k)"
proof -
  let ?bs = "map (\<lambda>k. document_lines w minify (k + 1) (rendered infos ! k))
               [0..<length (rendered infos)]"
  have len: "length (concat ?bs) = 6 * length (rendered infos)"
    by (simp add: concat_blocks_length [where n = 6] document_lines_length)
  have blk: "take 6 (drop (6 * k) (concat ?bs)) = ?bs ! k"
    using assms by (intro concat_blocks_nth) (simp_all add: document_lines_length)
  have "6 * k + 6 \<le> length (concat ?bs)"
    using assms len by simp
  then have "take 6 (drop (6 * k) (concat ?bs @ [u ''</documents>''])) =
             take 6 (drop (6 * k) (concat ?bs))"
    by simp
  with blk assms show ?thesis
    by (simp add: cxml_lines_blocks)
qed


lemma cxml_lines_first_last:
  "generate_cxml_lines w infos minify ! 0 = u ''<documents>''
   \<and> last (generate_cxml_lines w infos minify) = u ''</documents>''"
  by (simp add: cxml_lines_blocks)


lemma example_corpus_rendered:
  "rendered example_corpus_infos =
     [file_info (repo @ [u ''README.md'']) (u ''README.md'') 5 True (u ''ok''),
      file_info (repo @ [u ''flaky.txt'']) (u ''flaky.txt'') 3 True (u ''ok''),
      file_info (repo @ [u ''src'', u ''a.py'']) (u ''src/a.py'') 9 True (u ''ok'')]"
  by (simp add: example_corpus_infos_def rendered_def file_info_def)

lemma str_of_digit: "n < 10 \<Longrightarrow> str_of_nat n = [48 + n]"
  by (subst str_of_nat.simps) simp




text \<open>
  C7. When reading the text of an included file raises, the document of that file is
  still written, with its index and source path; its content is the message
  \<open>Failed to read: \<close> followed by the text of the exception. The length of the
  corpus and the documents of all other included files are what they are without the
  failure, and the closing element is there.
\<close>

theorem cxml_read_failure_inlined:
  assumes "k < length (rendered infos)"
    and "text_of w (info_path (rendered infos ! k)) = Inl e"
  shows "take 6 (drop (1 + 6 * k) (generate_cxml_lines w infos minify)) =
           [u ''<document index='' @ [34] @ str_of_nat (k + 1) @ [34] @ u ''>'',
            u ''<source>'' @ info_rel (rendered infos ! k) @ u ''</source>'',
            u ''<document_content>'',
            u ''Failed to read: '' @ exc_str e,
            u ''</document_content>'',
            u ''</document>'']
         \<and> length (generate_cxml_lines w infos minify) = 6 * length (rendered infos) + 2
         \<and> (\<forall>j < length (rendered infos). j \<noteq> k \<longrightarrow>
               take 6 (drop (1 + 6 * j) (generate_cxml_lines w infos minify)) =
                 document_lines w minify (j + 1) (rendered infos ! j))
         \<and> last (generate_cxml_lines w infos minify) = u ''</documents>''"
proof (intro conjI allI impI)
  from assms(2) have "document_content w minify (rendered infos ! k) = u ''Failed to read: '' @ exc_str e"
    by (simp add: document_content_def)
  with cxml_lines_block [OF assms(1), of w minify]
  show "take 6 (drop (1 + 6 * k) (generate_cxml_lines w infos minify)) =
           [u ''<document index='' @ [34] @ str_of_nat (k + 1) @ [34] @ u ''>'',
            u ''<source>'' @ info_rel (rendered infos ! k) @ u ''</source>'',
            u ''<document_content>'',
            u ''Failed to read: '' @ exc_str e,
            u ''</document_content>'',
            u ''</document>'']"
    by (simp add: document_lines_def)
  show "length (generate_cxml_lines w infos minify) = 6 * length (rendered infos) + 2"
    by (rule cxml_lines_length)
  show "last (generate_cxml_lines w infos minify) = u ''</documents>''"
    using cxml_lines_first_last by blast
next
  fix j assume "j < length (rendered infos)"
  then show "take 6 (drop (1 + 6 * j) (generate_cxml_lines w infos minify)) =
                 document_lines w minify (j + 1) (rendered infos ! j)"
    by (rule cxml_lines_block)
qed

theorem cxml_read_failure_inlined_witness:
  "1 < length (rendered example_corpus_infos)
   \<and> text_of example_env (info_path (rendered example_corpus_infos ! 1)) = Inl io_error
   \<and> take 6 (drop 7 (generate_cxml_lines example_env example_corpus_infos True)) =
        [u ''<document index='' @ [34] @ u ''2'' @ [34] @ u ''>'',
         u ''<source>flaky.txt</source>'',
         u ''<document_content>'',
         u ''Failed to read: Input/output error'',
         u ''</document_content>'',
         u ''</document>'']
   \<and> take 6 (drop 13 (generate_cxml_lines example_env example_corpus_infos True)) =
        [u ''<document index='' @ [34] @ u ''3'' @ [34] @ u ''>'',
         u ''<source>src/a.py</source>'',
         u ''<document_content>'',
         u ''x=1'',
         u ''</document_content>'',
         u ''</document>'']"
proof -
  have n: "1 < length (rendered example_corpus_infos)"
    by (simp add: example_corpus_rendered)
  have r: "text_of example_env (info_path (rendered example_corpus_infos ! 1)) = Inl io_error"
    by (simp add: example_corpus_rendered file_info_def ex_simps)
  note t = cxml_read_failure_inlined [OF n r, of True]
  from t [THEN conjunct1]
  have a: "take 6 (drop 7 (generate_cxml_lines example_env example_corpus_infos True)) =
        [u ''<document index='' @ [34] @ u ''2'' @ [34] @ u ''>'',
         u ''<source>flaky.txt</source>'',
         u ''<document_content>'',
         u ''Failed to read: Input/output error'',
         u ''</document_content>'',
         u ''</document>'']"
    by (simp add: example_corpus_rendered file_info_def str_of_digit u_def io_error_def)
  have two: "(2::nat) < length (rendered example_corpus_infos)" "(2::nat) \<noteq> 1"
    by (simp_all add: example_corpus_rendered)
  have c: "document_content example_env True (rendered example_corpus_infos ! 2) = u ''x=1''"
  proof -
    have s: "suffix (repo @ [u ''src'', u ''a.py'']) = u ''.py''"
      by (simp add: suffix_def path_name_def rfind_def repo_def u_def)
    have l: "str_lower example_env (u ''.py'') = u ''.py''"
      by (simp add: example_env_def ascii_lower_def u_def)
    have x: "text_of example_env (repo @ [u ''src'', u ''a.py'']) = Inr (u ''x = 1  #c'')"
      by (simp add: ex_simps)
    have m: "call_module (python_minifier example_env) (u ''x = 1  #c'') = u ''x=1''"
      by (simp add: call_module_def example_env_def example_python_minifier_def)
    show ?thesis
      by (simp add: example_corpus_rendered file_info_def document_content_def s x
          minify_py [OF l] m)
  qed
  from t [THEN conjunct2, THEN conjunct2, THEN conjunct1, rule_format, OF two]
  have b: "take 6 (drop 13 (generate_cxml_lines example_env example_corpus_infos True)) =
        [u ''<document index='' @ [34] @ u ''3'' @ [34] @ u ''>'',
         u ''<source>src/a.py</source>'',
         u ''<document_content>'',
         u ''x=1'',
         u ''</document_content>'',
         u ''</document>'']"
    by (simp add: document_lines_def c) (simp add: example_corpus_rendered file_info_def str_of_digit u_def)
  from n r a b show ?thesis
    by (simp only: simp_thms)
qed


section \<open>Properties of the directory tree\<close>


























lemma example_tree_built: "build_tree example_tracked [] = Inr example_tree"
  by (simp add: example_tracked_def example_tree_def str_split_def u_def)

lemma example_tree_items:
  "walk_items example_env example_tree =
     [(u ''docs'', Dir [(u ''x.md'', File)]),
      (u ''src'', Dir [(u ''A.py'', File), (u ''b.py'', File)]),
      (u ''apple.txt'', File), (u ''README.md'', File), (u ''Zed.txt'', File)]"
  by (simp add: walk_items_def sort_key_of_def example_tree_def example_env_def ascii_lower_def u_def)

lemma example_docs_walk:
  "walk example_env [(u ''x.md'', File)] p = [p @ [9492, 9472, 9472, 32] @ u ''x.md'']"
  by (subst walk.simps) (simp add: walk_items_def)

lemma example_src_walk:
  "walk example_env [(u ''A.py'', File), (u ''b.py'', File)] p =
     [p @ [9500, 9472, 9472, 32] @ u ''A.py'', p @ [9492, 9472, 9472, 32] @ u ''b.py'']"
  by (subst walk.simps)
     (simp add: walk_items_def sort_key_of_def example_env_def ascii_lower_def u_def)

lemma example_tree_walk: "walk example_env example_tree [] = tl example_tree_lines"
  by (subst walk.simps)
     (simp add: example_tree_items example_docs_walk example_src_walk example_tree_lines_def)

lemma example_tree_text:
  "build_git_tree example_env (u ''repo'') example_tracked = Inr (str_join [10] example_tree_lines)"
  by (simp add: build_git_tree_def example_tree_built example_tree_walk example_tree_lines_def)









section \<open>Properties of slugify\<close>

lemma slugify_loop_map:
  "slugify_loop isalnum s out =
     out @ map (\<lambda>ch. if isalnum ch \<or> ch = 45 \<or> ch = 95 then ch else 45) s"
  by (induction s arbitrary: out) auto

text \<open>
  C9. slugify keeps every alphanumeric character, \<open>-\<close> (45) and \<open>_\<close> (95), and
  replaces every other character by \<open>-\<close>, one for one: the output has the length of
  the input, nothing is collapsed and no case is changed. Slugifying a slug gives the
  same slug.
\<close>

theorem slugify_pointwise_idempotent:
  "slugify isalnum s = map (\<lambda>ch. if isalnum ch \<or> ch = 45 \<or> ch = 95 then ch else 45) s
   \<and> length (slugify isalnum s) = length s
   \<and> slugify isalnum (slugify isalnum s) = slugify isalnum s"
  by (simp add: slugify_def slugify_loop_map)

end
